theory Spec2Isabelle
  imports Complex_Main "HOL-Library.AList"
begin

section \<open>Python values, exceptions and the two artifacts\<close>

text \<open>
  The program is one Streamlit script, \<^verbatim>\<open>app/main.py\<close>: it loads two pickled objects at
  import time, and \<^verbatim>\<open>main()\<close> reads a form, encodes it, asks the model for a number and
  renders that number. Exceptions are values of type \<open>error\<close>; a computation that may raise
  returns \<open>error + 'a\<close>, with \<open>Inl\<close> the exception. \<open>Raised\<close> stands for an exception that
  comes out of a library call (joblib, an artifact's method), named by its class.
\<close>

datatype error = KeyError string | IndexError | Raised string

definition bind_result :: "error + 'a \<Rightarrow> ('a \<Rightarrow> error + 'b) \<Rightarrow> error + 'b" where
  "bind_result r k = (case r of Inl e \<Rightarrow> Inl e | Inr v \<Rightarrow> k v)"

text \<open>
  Floats are real numbers here; numpy arrays are lists (a 2-d array is a list of rows).
  Indexing an array with a constant that is not negative raises IndexError out of range.
\<close>

definition index :: "'a list \<Rightarrow> nat \<Rightarrow> error + 'a" where
  "index xs i = (if i < length xs then Inr (xs ! i) else Inl IndexError)"

text \<open>
  An unpickled object is opaque to the script. It uses three things of it: its truth value
  (\<^verbatim>\<open>if model and scaler\<close>), \<^verbatim>\<open>predict\<close> of the object stored as the model and
  \<^verbatim>\<open>transform\<close> of the object stored as the scaler. Both methods are parameters: nothing is
  assumed about what they return, and they may raise.
\<close>

record pyobj =
  truthy :: bool
  predict :: "real list list \<Rightarrow> error + real list"
  transform :: "real list list \<Rightarrow> error + real list list"

text \<open>
  A file on disk, as \<^verbatim>\<open>os.path.exists\<close> and \<^verbatim>\<open>joblib.load\<close> see it: not there, there but
  \<^verbatim>\<open>joblib.load\<close> raises an \<^verbatim>\<open>Exception\<close> on it, or there and holding an object.
\<close>

datatype pkl_file = Missing | Corrupt | Pickled pyobj

record disk =
  champion_random_forest_pkl :: pkl_file
  scaler_pkl :: pkl_file

fun path_exists :: "pkl_file \<Rightarrow> bool" where
  "path_exists Missing = False"
| "path_exists Corrupt = True"
| "path_exists (Pickled x) = True"

fun joblib_load :: "pkl_file \<Rightarrow> error + pyobj" where
  "joblib_load Missing = Inl (Raised ''FileNotFoundError'')"
| "joblib_load Corrupt = Inl (Raised ''Exception'')"
| "joblib_load (Pickled x) = Inr x"

section \<open>Artifact loading (lines 22 to 49)\<close>

text \<open>
  The dict \<^verbatim>\<open>artifacts\<close> is an association list from keys to objects, in insertion order.
  \<^verbatim>\<open>d[k] = v\<close> is \<open>setitem\<close>; \<^verbatim>\<open>d[k]\<close> raises KeyError on a key that is not there, and
  TypeError when \<^verbatim>\<open>d\<close> is None. Only None and the empty dict are falsy.
\<close>

type_synonym pydict = "(string \<times> pyobj) list"

definition setitem :: "pydict \<Rightarrow> string \<Rightarrow> pyobj \<Rightarrow> pydict" where
  "setitem d k v = AList.update k v d"

fun getitem :: "pydict option \<Rightarrow> string \<Rightarrow> error + pyobj" where
  "getitem None k = Inl (Raised ''TypeError'')"
| "getitem (Some d) k = (case map_of d k of None \<Rightarrow> Inl (KeyError k) | Some v \<Rightarrow> Inr v)"

fun dict_truth :: "pydict option \<Rightarrow> bool" where
  "dict_truth None = False"
| "dict_truth (Some d) = (d \<noteq> [])"

text \<open>
  \<^verbatim>\<open>load_artifacts\<close>: both loads stand in one \<^verbatim>\<open>try\<close>, whose handler \<^verbatim>\<open>except Exception\<close>
  returns None. The \<^verbatim>\<open>st.cache_resource\<close> decorator (the result is computed once per
  process) is left out: the function is called once, at import.
\<close>

definition load_artifacts :: "disk \<Rightarrow> pydict option" where
  "load_artifacts d =
     (let artifacts = [] in
      case bind_result
             (if path_exists (champion_random_forest_pkl d)
              then bind_result (joblib_load (champion_random_forest_pkl d))
                     (\<lambda>m. Inr (setitem artifacts ''model'' m))
              else Inr artifacts)
             (\<lambda>artifacts.
                if path_exists (scaler_pkl d)
                then bind_result (joblib_load (scaler_pkl d))
                       (\<lambda>s. Inr (setitem artifacts ''scaler'' s))
                else Inr artifacts)
      of Inl e \<Rightarrow> None
       | Inr artifacts \<Rightarrow> Some artifacts)"

text \<open>
  The module-level statements after it (lines 47 to 49):
  \<^verbatim>\<open>
  assets = load_artifacts()
  model = assets['model'] if assets else None
  scaler = assets['scaler'] if assets else None
  \<close>
  An exception here is not caught by anything: the script stops.
\<close>

record globals =
  model :: "pyobj option"
  scaler :: "pyobj option"

definition startup :: "disk \<Rightarrow> error + globals" where
  "startup d =
     (let assets = load_artifacts d in
      bind_result
        (if dict_truth assets then bind_result (getitem assets ''model'') (\<lambda>v. Inr (Some v))
         else Inr None)
        (\<lambda>model.
           bind_result
             (if dict_truth assets then bind_result (getitem assets ''scaler'') (\<lambda>v. Inr (Some v))
              else Inr None)
             (\<lambda>scaler. Inr \<lparr>model = model, scaler = scaler\<rparr>)))"

section \<open>The form (lines 77 to 116)\<close>

text \<open>
  What the widgets hand to \<^verbatim>\<open>main\<close>. \<^verbatim>\<open>st.radio\<close> and \<^verbatim>\<open>st.selectbox\<close> return one of the
  strings of their option list: the one the user picked, or the first one while the widget
  is untouched (Streamlit's default index is 0).
\<close>

record form =
  age :: int
  bmi :: real
  sex :: string
  children :: int
  smoker :: bool
  region :: string
  submitted :: bool

definition sex_options :: "string list" where
  "sex_options = [''Male'', ''Female'']"

definition region_options :: "string list" where
  "region_options = [''Southeast'', ''Northwest'', ''Southwest'', ''Northeast'']"

fun selectbox :: "'a list \<Rightarrow> nat option \<Rightarrow> 'a option" where
  "selectbox [] pick = None"
| "selectbox (x # xs) None = Some x"
| "selectbox (x # xs) (Some i) = (if i < length (x # xs) then Some ((x # xs) ! i) else None)"

definition region_widget :: "nat option \<Rightarrow> string option" where
  "region_widget pick = selectbox region_options pick"

section \<open>Feature encoding (lines 131 to 154)\<close>

definition sex_val :: "form \<Rightarrow> int" where
  "sex_val f = (if sex f = ''Male'' then 0 else 1)"

definition smoker_val :: "form \<Rightarrow> int" where
  "smoker_val f = (if smoker f then 1 else 0)"

definition r_nw :: "form \<Rightarrow> int" where
  "r_nw f = (if region f = ''Northwest'' then 1 else 0)"

definition r_se :: "form \<Rightarrow> int" where
  "r_se f = (if region f = ''Southeast'' then 1 else 0)"

definition r_sw :: "form \<Rightarrow> int" where
  "r_sw f = (if region f = ''Southwest'' then 1 else 0)"

definition cluster :: "form \<Rightarrow> int" where
  "cluster f = (if smoker_val f = 1 then 2 else 1)"

definition input_raw :: "form \<Rightarrow> real list list" where
  "input_raw f = [[of_int (age f), bmi f, of_int (children f), of_int (cluster f)]]"

text \<open>A method call on a global that may be None.\<close>

fun call_transform :: "pyobj option \<Rightarrow> real list list \<Rightarrow> error + real list list" where
  "call_transform None x = Inl (Raised ''AttributeError'')"
| "call_transform (Some s) x = transform s x"

fun call_predict :: "pyobj option \<Rightarrow> real list list \<Rightarrow> error + real list" where
  "call_predict None x = Inl (Raised ''AttributeError'')"
| "call_predict (Some m) x = predict m x"

definition input_scaled :: "pyobj option \<Rightarrow> form \<Rightarrow> error + real list" where
  "input_scaled sc f = bind_result (call_transform sc (input_raw f)) (\<lambda>rows. index rows 0)"

definition final_vec :: "pyobj option \<Rightarrow> form \<Rightarrow> error + real list list" where
  "final_vec sc f =
     bind_result (input_scaled sc f) (\<lambda>scaled.
     bind_result (index scaled 0) (\<lambda>s0.
     bind_result (index scaled 1) (\<lambda>s1.
     bind_result (index scaled 2) (\<lambda>s2.
     bind_result (index scaled 3) (\<lambda>s3.
       Inr [[s0, of_int (sex_val f), s1, s2,
             of_int (smoker_val f), of_int (r_nw f), of_int (r_se f), of_int (r_sw f), s3]])))))"

section \<open>Presentation (lines 165 to 193)\<close>

text \<open>
  The three banners, by the Streamlit call that draws them. The texts are the source's
  without their leading pictograph.
\<close>

datatype banner = St_error string | St_success string | St_info string

definition high_risk :: banner where
  "high_risk = St_error ''High Risk Profile Detected: Premium exceeds standard thresholds.''"

definition low_risk :: banner where
  "low_risk = St_success ''Low Risk Profile: Optimal health markers identified.''"

definition standard_risk :: banner where
  "standard_risk = St_info ''Standard Risk Profile: Aligns with market averages.''"

definition risk_alert :: "real \<Rightarrow> banner" where
  "risk_alert prediction =
     (if prediction > 30000 then high_risk
      else if prediction < 10000 then low_risk
      else standard_risk)"

text \<open>
  The Plotly indicator: the fields of the figure that carry numbers or colours. A step is
  its \<^verbatim>\<open>range\<close> (a pair of bounds) and its \<^verbatim>\<open>color\<close>.
\<close>

record indicator =
  indicator_value :: real
  axis_range :: "real \<times> real"
  steps :: "((real \<times> real) \<times> string) list"
  threshold_value :: real

definition gauge :: "real \<Rightarrow> indicator" where
  "gauge prediction =
     \<lparr>indicator_value = prediction,
      axis_range = (2000, 60000),
      steps = [((2000, 15000), ''#00b894''),
               ((15000, 35000), ''#fdcb6e''),
               ((35000, 60000), ''#ff7675'')],
      threshold_value = prediction\<rparr>"

section \<open>The controller \<^verbatim>\<open>main\<close> (lines 54 to 197)\<close>

text \<open>
  A run of \<^verbatim>\<open>main\<close> returns what the result column shows and the calls it made on the
  artifacts, in order. The metric is the number that the script formats as currency; the
  formatting is not modelled.
\<close>

datatype call = Transform "real list list" | Predict "real list list"

record report =
  alert :: banner
  metric :: real
  chart :: indicator

datatype view = Idle banner | Result report

record run =
  shown :: view
  calls :: "call list"

fun truth :: "pyobj option \<Rightarrow> bool" where
  "truth None = False"
| "truth (Some x) = truthy x"

text \<open>
  The inference step of \<^verbatim>\<open>main\<close> (lines 127 to 160): the prediction and the calls made.
  \<^verbatim>\<open>if model and scaler\<close> tests the truth values of the two globals; None is falsy.
\<close>

definition inference :: "globals \<Rightarrow> form \<Rightarrow> error + real \<times> call list" where
  "inference g f =
     (if truth (model g) \<and> truth (scaler g) then
        bind_result (final_vec (scaler g) f) (\<lambda>fv.
        bind_result (call_predict (model g) fv) (\<lambda>out.
        bind_result (index out 0) (\<lambda>prediction.
          Inr (prediction, [Transform (input_raw f), Predict fv]))))
      else Inr (0, []))"

definition main :: "globals \<Rightarrow> form \<Rightarrow> error + run" where
  "main g f =
     (if submitted f then
        bind_result (inference g f) (\<lambda>(prediction, cs).
          Inr \<lparr>shown = Result \<lparr>alert = risk_alert prediction, metric = prediction,
                                chart = gauge prediction\<rparr>,
               calls = cs\<rparr>)
      else
        Inr \<lparr>shown = Idle (St_info
               ''Awaiting Input: Adjust parameters and execute prediction to view results.''),
             calls = []\<rparr>)"

section \<open>Example artifacts and submissions\<close>

text \<open>
  A scaler that returns its input, a model that sums each row, an object that is falsy (as
  an ensemble with no estimators is: its \<^verbatim>\<open>__len__\<close> is 0), and two filled forms.
\<close>

definition identity_scaler :: pyobj where
  "identity_scaler =
     \<lparr>truthy = True, predict = (\<lambda>x. Inl (Raised ''AttributeError'')),
      transform = (\<lambda>x. Inr x)\<rparr>"

definition sum_model :: pyobj where
  "sum_model =
     \<lparr>truthy = True, predict = (\<lambda>x. Inr (map sum_list x)),
      transform = (\<lambda>x. Inl (Raised ''AttributeError''))\<rparr>"

definition empty_model :: pyobj where
  "empty_model =
     \<lparr>truthy = False, predict = (\<lambda>x. Inr (map sum_list x)),
      transform = (\<lambda>x. Inl (Raised ''AttributeError''))\<rparr>"

definition scenario_1 :: form where
  "scenario_1 =
     \<lparr>age = 35, bmi = 30, sex = ''Male'', children = 0, smoker = False,
      region = ''Southeast'', submitted = True\<rparr>"

definition scenario_ne :: form where
  "scenario_ne =
     \<lparr>age = 52, bmi = 27.5, sex = ''Female'', children = 2, smoker = True,
      region = ''Northeast'', submitted = True\<rparr>"

section \<open>Basic facts\<close>

lemma bind_result_simps [simp]:
  "bind_result (Inl e) k = Inl e"
  "bind_result (Inr v) k = k v"
  by (simp_all add: bind_result_def)

lemma load_artifacts_cases:
  "load_artifacts d =
     (case (champion_random_forest_pkl d, scaler_pkl d) of
        (Corrupt, _) \<Rightarrow> None
      | (_, Corrupt) \<Rightarrow> None
      | (Missing, Missing) \<Rightarrow> Some []
      | (Pickled m, Missing) \<Rightarrow> Some [(''model'', m)]
      | (Missing, Pickled s) \<Rightarrow> Some [(''scaler'', s)]
      | (Pickled m, Pickled s) \<Rightarrow> Some [(''model'', m), (''scaler'', s)])"
  by (simp add: load_artifacts_def setitem_def split: pkl_file.splits)

lemma startup_cases:
  "startup d =
     (case (champion_random_forest_pkl d, scaler_pkl d) of
        (Corrupt, _) \<Rightarrow> Inr \<lparr>model = None, scaler = None\<rparr>
      | (_, Corrupt) \<Rightarrow> Inr \<lparr>model = None, scaler = None\<rparr>
      | (Missing, Missing) \<Rightarrow> Inr \<lparr>model = None, scaler = None\<rparr>
      | (Pickled m, Missing) \<Rightarrow> Inl (KeyError ''scaler'')
      | (Missing, Pickled s) \<Rightarrow> Inl (KeyError ''model'')
      | (Pickled m, Pickled s) \<Rightarrow> Inr \<lparr>model = Some m, scaler = Some s\<rparr>)"
  by (simp add: startup_def load_artifacts_cases split: pkl_file.splits)

lemma startup_both_missing:
  "startup \<lparr>champion_random_forest_pkl = Missing, scaler_pkl = Missing\<rparr>
     = Inr \<lparr>model = None, scaler = None\<rparr>"
  by (simp add: startup_cases)

lemma inference_fallback:
  "\<not> (truth (model g) \<and> truth (scaler g)) \<Longrightarrow> inference g f = Inr (0, [])"
  unfolding inference_def by (rule if_not_P)

lemma main_fallback:
  assumes "\<not> (truth (model g) \<and> truth (scaler g))" and "submitted f"
  shows "main g f = Inr \<lparr>shown = Result \<lparr>alert = low_risk, metric = 0, chart = gauge 0\<rparr>,
                          calls = []\<rparr>"
  using assms by (simp add: main_def inference_fallback risk_alert_def)

lemma banners_distinct:
  "high_risk \<noteq> low_risk" "high_risk \<noteq> standard_risk" "low_risk \<noteq> standard_risk"
  by (simp_all add: high_risk_def low_risk_def standard_risk_def)

section \<open>The feature vector\<close>

text \<open>
  Claim C1. Whenever the scaler answers the raw quad with an array whose first row has at
  least four cells, the encoder returns one row of exactly nine cells, in the order
  scaled age, sex bit, scaled BMI, scaled children, smoker bit, Northwest bit, Southeast bit,
  Southwest bit, scaled cluster. The scaled cells are cells 0 to 3 of the scaler's answer
  to the quad age, BMI, children, cluster, given to it in that order. This holds for every
  form, the valid ones among them.
\<close>

theorem final_vec_layout:
  assumes "transform s [[of_int (age f), bmi f, of_int (children f), if smoker f then 2 else 1]]
             = Inr (row # rest)"
    and "4 \<le> length row"
  shows "\<exists>v. final_vec (Some s) f = Inr [v] \<and> length v = 9 \<and>
           v = [row ! 0, if sex f = ''Male'' then 0 else 1, row ! 1, row ! 2,
                if smoker f then 1 else 0,
                if region f = ''Northwest'' then 1 else 0,
                if region f = ''Southeast'' then 1 else 0,
                if region f = ''Southwest'' then 1 else 0,
                row ! 3]"
proof -
  have quad: "input_raw f
      = [[of_int (age f), bmi f, of_int (children f), if smoker f then 2 else 1]]"
    by (simp add: input_raw_def cluster_def smoker_val_def)
  have scaled: "input_scaled (Some s) f = Inr row"
    using assms(1) by (simp add: input_scaled_def quad index_def)
  have cells: "index row 0 = Inr (row ! 0)" "index row (Suc 0) = Inr (row ! 1)"
    "index row 2 = Inr (row ! 2)" "index row 3 = Inr (row ! 3)"
    using assms(2) by (auto simp add: index_def)
  have "final_vec (Some s) f =
          Inr [[row ! 0, of_int (sex_val f), row ! 1, row ! 2, of_int (smoker_val f),
                of_int (r_nw f), of_int (r_se f), of_int (r_sw f), row ! 3]]"
    by (simp add: final_vec_def scaled cells)
  then show ?thesis
    by (simp add: sex_val_def smoker_val_def r_nw_def r_se_def r_sw_def)
qed

theorem final_vec_layout_witness:
  "transform identity_scaler [[35, 30, 0, 1]] = Inr [[35, 30, 0, 1]]
   \<and> 4 \<le> length [35, 30, 0, 1 :: real]
   \<and> final_vec (Some identity_scaler) scenario_1 = Inr [[35, 0, 30, 0, 0, 0, 1, 0, 1]]"
  using final_vec_layout [of identity_scaler scenario_1 "[35, 30, 0, 1]" "[]"]
  by (simp add: identity_scaler_def scenario_1_def)

text \<open>
  Claim C5. For every form: the sex bit is 0 for Male and 1 otherwise; the smoker bit is 1
  for a smoker and 0 otherwise; the cluster is 2 when the smoker bit is 1 and 1 otherwise,
  so it is 2 exactly for smokers, whatever the other fields hold. The cluster is the last
  cell of the quad given to the scaler, and the two bits are cells 1 and 4 of every
  feature vector the encoder returns.
\<close>

theorem categorical_encoding:
  "sex_val f = (if sex f = ''Male'' then 0 else 1)
   \<and> smoker_val f = (if smoker f then 1 else 0)
   \<and> cluster f = (if smoker f then 2 else 1)
   \<and> (cluster f = 2 \<longleftrightarrow> smoker f)
   \<and> cluster (f\<lparr>age := a, bmi := b, sex := x, children := c, region := r, submitted := t\<rparr>)
       = cluster f
   \<and> input_raw f = [[of_int (age f), bmi f, of_int (children f), if smoker f then 2 else 1]]
   \<and> (\<forall>fv. final_vec sc f = Inr fv \<longrightarrow>
         (\<exists>v. fv = [v] \<and> length v = 9
              \<and> v ! 1 = (if sex f = ''Male'' then 0 else 1)
              \<and> v ! 4 = (if smoker f then 1 else 0)))"
  by (auto simp add: sex_val_def smoker_val_def cluster_def input_raw_def final_vec_def
      bind_result_def split: sum.splits)

theorem categorical_encoding_witness:
  "final_vec (Some identity_scaler) scenario_ne = Inr [[52, 1, 27.5, 2, 1, 0, 0, 0, 2]]
   \<and> sex_val scenario_ne = 1 \<and> smoker_val scenario_ne = 1 \<and> cluster scenario_ne = 2"
proof -
  have run: "final_vec (Some identity_scaler) scenario_ne
               = Inr [[52, 1, 27.5, 2, 1, 0, 0, 0, 2]]"
    by (simp add: final_vec_def input_scaled_def input_raw_def index_def cluster_def
        sex_val_def smoker_val_def r_nw_def r_se_def r_sw_def scenario_ne_def
        identity_scaler_def)
  show ?thesis
    using categorical_encoding [where f = scenario_ne and sc = "Some identity_scaler"] run
    by (simp add: scenario_ne_def)
qed

text \<open>
  Claim C6. For every form, the Northwest bit is 1 exactly when the region is Northwest,
  the Southeast bit exactly when it is Southeast, the Southwest bit exactly when it is
  Southwest, and each bit is 0 or 1. So exactly one of the three bits is 1 when the region
  is one of these three, and all three are 0 when the region is Northeast.
\<close>

theorem region_one_hot:
  "(r_nw f = 1 \<longleftrightarrow> region f = ''Northwest'')
   \<and> (r_se f = 1 \<longleftrightarrow> region f = ''Southeast'')
   \<and> (r_sw f = 1 \<longleftrightarrow> region f = ''Southwest'')
   \<and> set [r_nw f, r_se f, r_sw f] \<subseteq> {0, 1}
   \<and> (region f \<in> {''Northwest'', ''Southeast'', ''Southwest''} \<longrightarrow>
        length (filter (\<lambda>b. b = 1) [r_nw f, r_se f, r_sw f]) = 1)
   \<and> (region f = ''Northeast'' \<longrightarrow> r_nw f = 0 \<and> r_se f = 0 \<and> r_sw f = 0)"
  by (auto simp add: r_nw_def r_se_def r_sw_def)

theorem region_one_hot_witness:
  "region scenario_1 \<in> {''Northwest'', ''Southeast'', ''Southwest''}
   \<and> [r_nw scenario_1, r_se scenario_1, r_sw scenario_1] = [0, 1, 0]
   \<and> region scenario_ne = ''Northeast''
   \<and> [r_nw scenario_ne, r_se scenario_ne, r_sw scenario_ne] = [0, 0, 0]"
  using region_one_hot [of scenario_1] region_one_hot [of scenario_ne]
  by (auto simp add: scenario_1_def scenario_ne_def)

section \<open>Loading and the fallback\<close>

text \<open>
  Claim C2. On every submission with the model or the scaler None, \<^verbatim>\<open>main\<close> calls
  neither \<^verbatim>\<open>transform\<close> nor \<^verbatim>\<open>predict\<close>, the prediction is 0, the result is rendered (banner,
  metric and gauge, with no exception), and the banner is the Low Risk one, which is what
  the thresholds give for 0 and is not the Standard Risk one.
\<close>

theorem fallback_when_unavailable:
  assumes "model g = None \<or> scaler g = None" and "submitted f"
  shows "main g f = Inr \<lparr>shown = Result \<lparr>alert = low_risk, metric = 0, chart = gauge 0\<rparr>,
                          calls = []\<rparr>
         \<and> risk_alert 0 = low_risk \<and> low_risk \<noteq> standard_risk"
proof -
  have "\<not> (truth (model g) \<and> truth (scaler g))"
    using assms(1) by auto
  then show ?thesis
    using assms(2) by (simp add: main_fallback banners_distinct risk_alert_def)
qed

theorem fallback_when_unavailable_witness:
  "model \<lparr>model = None, scaler = None\<rparr> = None \<and> submitted scenario_1 \<and>
   main \<lparr>model = None, scaler = None\<rparr> scenario_1 =
     Inr \<lparr>shown = Result
            \<lparr>alert = St_success ''Low Risk Profile: Optimal health markers identified.'',
             metric = 0, chart = gauge 0\<rparr>,
          calls = []\<rparr>"
  using fallback_when_unavailable [of "\<lparr>model = None, scaler = None\<rparr>" scenario_1]
  by (simp add: scenario_1_def low_risk_def)

text \<open>
  Claim C4, at the input where the code departs from it. With the model file holding an
  object and the scaler file missing, \<^verbatim>\<open>load_artifacts\<close> does return a dict with the
  model alone; the dict is truthy, so line 49 subscripts it with the key it lacks and the
  import stops with KeyError. The mirror case stops at line 48.
\<close>

theorem startup_one_file_missing:
  "load_artifacts \<lparr>champion_random_forest_pkl = Pickled m, scaler_pkl = Missing\<rparr>
     = Some [(''model'', m)]
   \<and> startup \<lparr>champion_random_forest_pkl = Pickled m, scaler_pkl = Missing\<rparr>
     = Inl (KeyError ''scaler'')
   \<and> load_artifacts \<lparr>champion_random_forest_pkl = Missing, scaler_pkl = Pickled s\<rparr>
     = Some [(''scaler'', s)]
   \<and> startup \<lparr>champion_random_forest_pkl = Missing, scaler_pkl = Pickled s\<rparr>
     = Inl (KeyError ''model'')"
  by (simp add: startup_cases load_artifacts_cases)

text \<open>
  Claim C7. Whenever \<^verbatim>\<open>joblib.load\<close> raises on either file, \<^verbatim>\<open>load_artifacts\<close> returns
  None, whatever the other file holds and even when the model was already loaded; both
  globals become None; the import raises nothing, and every later run of \<^verbatim>\<open>main\<close>
  returns without an exception and without a call on an artifact.
\<close>

theorem load_failure_is_total:
  assumes "champion_random_forest_pkl d = Corrupt \<or> scaler_pkl d = Corrupt"
  shows "load_artifacts d = None
         \<and> startup d = Inr \<lparr>model = None, scaler = None\<rparr>
         \<and> (\<exists>r. main \<lparr>model = None, scaler = None\<rparr> f = Inr r \<and> calls r = [])"
proof -
  have "load_artifacts d = None"
    using assms by (auto simp add: load_artifacts_cases split: pkl_file.splits)
  moreover have "startup d = Inr \<lparr>model = None, scaler = None\<rparr>"
    using assms by (auto simp add: startup_cases split: pkl_file.splits)
  moreover have "\<exists>r. main \<lparr>model = None, scaler = None\<rparr> f = Inr r \<and> calls r = []"
    by (cases "submitted f") (simp_all add: main_def inference_fallback)
  ultimately show ?thesis by simp
qed

theorem load_failure_is_total_witness:
  "scaler_pkl \<lparr>champion_random_forest_pkl = Pickled sum_model, scaler_pkl = Corrupt\<rparr> = Corrupt
   \<and> load_artifacts \<lparr>champion_random_forest_pkl = Pickled sum_model, scaler_pkl = Corrupt\<rparr>
       = None
   \<and> startup \<lparr>champion_random_forest_pkl = Pickled sum_model, scaler_pkl = Corrupt\<rparr>
       = Inr \<lparr>model = None, scaler = None\<rparr>"
  using load_failure_is_total
    [of "\<lparr>champion_random_forest_pkl = Pickled sum_model, scaler_pkl = Corrupt\<rparr>"]
  by simp

text \<open>
  Claim C10. The test before inference is on the truth values of the two objects, not on
  their presence: when both files load, both globals hold their objects, and if either
  object is falsy a submission still takes the fallback, with prediction 0 and no call on
  an artifact.
\<close>

theorem falsy_artifact_takes_fallback:
  assumes "champion_random_forest_pkl d = Pickled m" and "scaler_pkl d = Pickled s"
    and "\<not> truthy m \<or> \<not> truthy s" and "submitted f"
  shows "startup d = Inr \<lparr>model = Some m, scaler = Some s\<rparr>
         \<and> main \<lparr>model = Some m, scaler = Some s\<rparr> f
             = Inr \<lparr>shown = Result \<lparr>alert = low_risk, metric = 0, chart = gauge 0\<rparr>,
                    calls = []\<rparr>"
proof -
  have "startup d = Inr \<lparr>model = Some m, scaler = Some s\<rparr>"
    using assms(1,2) by (simp add: startup_cases)
  moreover have "\<not> (truth (model \<lparr>model = Some m, scaler = Some s\<rparr>)
                    \<and> truth (scaler \<lparr>model = Some m, scaler = Some s\<rparr>))"
    using assms(3) by auto
  ultimately show ?thesis
    using assms(4) by (simp add: main_fallback)
qed

theorem falsy_artifact_takes_fallback_witness:
  "\<not> truthy empty_model \<and> submitted scenario_ne
   \<and> main \<lparr>model = Some empty_model, scaler = Some identity_scaler\<rparr> scenario_ne
       = Inr \<lparr>shown = Result \<lparr>alert = low_risk, metric = 0, chart = gauge 0\<rparr>, calls = []\<rparr>"
  using falsy_artifact_takes_fallback
    [of "\<lparr>champion_random_forest_pkl = Pickled empty_model,
          scaler_pkl = Pickled identity_scaler\<rparr>"
        empty_model identity_scaler scenario_ne]
  by (simp add: empty_model_def scenario_ne_def)

section \<open>The banner and the gauge\<close>

text \<open>
  Claim C3. For every prediction the banner is chosen by the first test that holds: High
  Risk exactly above 30000, otherwise Low Risk exactly below 10000, otherwise Standard
  Risk. The three banners differ from one another and every prediction gets one of them.
  30001 gets High Risk, 9999 Low Risk and 20000 Standard Risk.
\<close>

theorem risk_alert_cases:
  "(risk_alert p = high_risk \<longleftrightarrow> p > 30000)
   \<and> (risk_alert p = low_risk \<longleftrightarrow> \<not> p > 30000 \<and> p < 10000)
   \<and> (risk_alert p = standard_risk \<longleftrightarrow> \<not> p > 30000 \<and> \<not> p < 10000)
   \<and> (risk_alert p = high_risk \<or> risk_alert p = low_risk \<or> risk_alert p = standard_risk)
   \<and> distinct [high_risk, low_risk, standard_risk]
   \<and> risk_alert 30001 = high_risk \<and> risk_alert 9999 = low_risk
   \<and> risk_alert 20000 = standard_risk"
  by (simp add: risk_alert_def banners_distinct banners_distinct [symmetric])

text \<open>
  Claim C8. For every prediction the gauge has the axis range 2000 to 60000 and the same
  three steps, 2000 to 15000 in #00b894 (green), 15000 to 35000 in #fdcb6e (amber) and
  35000 to 60000 in #ff7675 (red), and its threshold marker stands at the prediction; every
  rendered result carries this gauge for the number it shows. The step bounds are not the
  banner's thresholds: 12000 lies in the first step and gets Standard Risk, 32000 in the
  second and gets High Risk.
\<close>

theorem gauge_layout:
  "axis_range (gauge p) = (2000, 60000)
   \<and> steps (gauge p) = [((2000, 15000), ''#00b894''), ((15000, 35000), ''#fdcb6e''),
                         ((35000, 60000), ''#ff7675'')]
   \<and> threshold_value (gauge p) = p
   \<and> steps (gauge p) = steps (gauge q) \<and> axis_range (gauge p) = axis_range (gauge q)
   \<and> (submitted f \<and> main g f = Inr r \<longrightarrow>
        (\<exists>rep. shown r = Result rep \<and> chart rep = gauge (metric rep)
               \<and> threshold_value (chart rep) = metric rep
               \<and> alert rep = risk_alert (metric rep)))
   \<and> risk_alert 12000 = standard_risk \<and> risk_alert 32000 = high_risk"
  by (auto simp add: gauge_def main_def bind_result_def risk_alert_def split: sum.splits)

theorem gauge_layout_witness:
  "submitted scenario_1
   \<and> main \<lparr>model = Some sum_model, scaler = Some identity_scaler\<rparr> scenario_1
       = Inr \<lparr>shown = Result \<lparr>alert = low_risk, metric = 67, chart = gauge 67\<rparr>,
              calls = [Transform [[35, 30, 0, 1]], Predict [[35, 0, 30, 0, 0, 0, 1, 0, 1]]]\<rparr>
   \<and> threshold_value (gauge 67) = 67"
proof -
  have fv: "final_vec (Some identity_scaler) scenario_1 = Inr [[35, 0, 30, 0, 0, 0, 1, 0, 1]]"
    by (simp add: final_vec_def input_scaled_def input_raw_def index_def cluster_def
        sex_val_def smoker_val_def r_nw_def r_se_def r_sw_def scenario_1_def
        identity_scaler_def)
  have raw: "input_raw scenario_1 = [[35, 30, 0, 1]]"
    by (simp add: input_raw_def cluster_def smoker_val_def scenario_1_def)
  have run: "main \<lparr>model = Some sum_model, scaler = Some identity_scaler\<rparr> scenario_1
       = Inr \<lparr>shown = Result \<lparr>alert = low_risk, metric = 67, chart = gauge 67\<rparr>,
              calls = [Transform [[35, 30, 0, 1]], Predict [[35, 0, 30, 0, 0, 0, 1, 0, 1]]]\<rparr>"
    by (simp add: main_def inference_def fv raw index_def risk_alert_def)
       (simp add: sum_model_def identity_scaler_def scenario_1_def)
  show ?thesis
    using gauge_layout [where p = 67 and f = scenario_1
        and g = "\<lparr>model = Some sum_model, scaler = Some identity_scaler\<rparr>"] run
    by (simp add: scenario_1_def)
qed

section \<open>The region widget\<close>

text \<open>
  Claim C9 as stated fails: the untouched region widget does not hold Northeast.
\<close>

theorem region_default_not_northeast:
  "region_widget None \<noteq> Some ''Northeast''"
  by (simp add: region_widget_def region_options_def)

text \<open>
  Claim C9, amended. The untouched region widget holds the first of its four option
  strings; the options are Southeast, Northwest, Southwest, Northeast in this order, so
  the default is Southeast. The four strings are the four regions of the form.
\<close>

theorem region_default_is_first_option:
  "region_widget None = Some (hd region_options)
   \<and> region_widget None = Some ''Southeast''
   \<and> region_options = [''Southeast'', ''Northwest'', ''Southwest'', ''Northeast'']
   \<and> length region_options = 4
   \<and> set region_options = {''Northeast'', ''Northwest'', ''Southeast'', ''Southwest''}"
  by (auto simp add: region_widget_def region_options_def)

end
